theory Spec2Isabelle
  imports Complex_Main
begin

section \<open>Data model (shared/schema.ts)\<close>

text \<open>
  Decimal columns travel through the API as numeric text. A \<open>decimal\<close> is the
  number such a text denotes, an exact rational: the text of a request property
  (\<open>None\<close> when the property is absent or null), or the value a column holds
  (\<open>None\<close> for NULL). Text that is not the text of a number, the empty text
  included, passes the schema validation and is refused by the store; requests with
  such text are outside this model. What a column of precision \<open>p\<close> and scale
  \<open>s\<close> makes of a number, and what JavaScript makes of it where a handler or the
  client computes, is written out below (\<open>pgRound\<close>, \<open>fitsNumeric\<close>,
  \<open>roundDouble\<close>, \<open>shortest\<close>). Rows that the store creates get their
  primary key from a counter, which stands for the column default
  \<^verbatim>\<open>gen_random_uuid()\<close>; keys that arrive in requests stay strings.
\<close>

type_synonym decimal = rat
type_synonym rowid = nat

text \<open>
  The amounts of a purchase order reach their columns as the text of a JavaScript
  Number, which may be \<^verbatim>\<open>'NaN'\<close>; a numeric column keeps that as its own NaN.
\<close>

datatype pgnumeric = Num decimal | NumNaN

definition paymentMethodEnum :: "string list" where
  "paymentMethodEnum = [''cash'', ''card'', ''credit'', ''fleet'']"

record customer =
  c_name :: string
  c_outstandingAmount :: "decimal option"

record supplier =
  s_name :: string
  s_outstandingAmount :: "decimal option"

record tank =
  t_name :: string
  t_currentStock :: "decimal option"

record settings_row =
  set_taxEnabled :: "bool option"
  set_taxRate :: "decimal option"
  set_currencyCode :: string

record sales_transaction =
  st_id :: rowid
  st_invoiceNumber :: string
  st_stationId :: string
  st_customerId :: string
  st_userId :: string
  st_paymentMethod :: string
  st_subtotal :: decimal
  st_taxAmount :: decimal
  st_totalAmount :: decimal
  st_paidAmount :: decimal
  st_outstandingAmount :: decimal

record sales_transaction_item =
  sti_id :: rowid
  sti_transactionId :: rowid
  sti_productId :: string
  sti_tankId :: "string option"
  sti_quantity :: decimal
  sti_unitPrice :: decimal
  sti_totalPrice :: decimal

record stock_movement =
  sm_id :: rowid
  sm_tankId :: string
  sm_stationId :: string
  sm_userId :: string
  sm_movementType :: string
  sm_quantity :: decimal
  sm_previousStock :: decimal
  sm_newStock :: decimal
  sm_referenceId :: "rowid option"
  sm_referenceType :: "string option"

record purchase_order =
  po_id :: rowid
  po_orderNumber :: string
  po_stationId :: string
  po_supplierId :: string
  po_userId :: string
  po_orderDate :: nat
  po_subtotal :: pgnumeric
  po_taxAmount :: pgnumeric
  po_totalAmount :: pgnumeric

record purchase_order_item =
  poi_id :: rowid
  poi_orderId :: rowid
  poi_productId :: string
  poi_tankId :: "string option"
  poi_quantity :: decimal
  poi_unitPrice :: decimal
  poi_totalPrice :: decimal

text \<open>The relational store: one field per table the modelled routes touch.\<close>

record store =
  customers :: "string \<rightharpoonup> customer"
  suppliers :: "string \<rightharpoonup> supplier"
  tanks :: "string \<rightharpoonup> tank"
  settings :: "string \<rightharpoonup> settings_row"
  salesTransactions :: "sales_transaction list"
  salesTransactionItems :: "sales_transaction_item list"
  stockMovements :: "stock_movement list"
  purchaseOrders :: "purchase_order list"
  purchaseOrderItems :: "purchase_order_item list"
  nextId :: rowid

subsection \<open>Objects carried by requests\<close>

text \<open>
  A JSON object may lack any property, so every property of a request object is an
  option. The insert schemas (\<^verbatim>\<open>createInsertSchema(table).omit(...)\<close>) require
  the properties of the \<^verbatim>\<open>notNull\<close> columns that have no default.
\<close>

record sales_transaction_insert =
  tx_invoiceNumber :: "string option"
  tx_stationId :: "string option"
  tx_customerId :: "string option"
  tx_userId :: "string option"
  tx_paymentMethod :: "string option"
  tx_subtotal :: "decimal option"
  tx_taxAmount :: "decimal option"
  tx_totalAmount :: "decimal option"
  tx_paidAmount :: "decimal option"
  tx_outstandingAmount :: "decimal option"

record sales_item_insert =
  it_transactionId :: "rowid option"
  it_productId :: "string option"
  it_tankId :: "string option"
  it_quantity :: "decimal option"
  it_unitPrice :: "decimal option"
  it_totalPrice :: "decimal option"

record stock_movement_insert =
  smi_tankId :: string
  smi_movementType :: string
  smi_quantity :: "decimal option"
  smi_referenceType :: "string option"
  smi_referenceId :: "rowid option"
  smi_stationId :: "string option"
  smi_userId :: "string option"

text \<open>The authenticated caller, \<^verbatim>\<open>req.user\<close>.\<close>

record user =
  u_id :: string
  u_role :: string
  u_stationId :: "string option"

text \<open>A response: the HTTP status and either the created header with its items or a message.\<close>

datatype ('h, 'i) body = Created 'h "'i list" | Message string

text \<open>JavaScript truthiness of a possibly absent string, and \<^verbatim>\<open>parseFloat(x || '0')\<close>.\<close>

definition truthy :: "string option \<Rightarrow> bool" where
  "truthy s = (case s of None \<Rightarrow> False | Some t \<Rightarrow> t \<noteq> [])"

definition parseFloatOr0 :: "decimal option \<Rightarrow> decimal" where
  "parseFloatOr0 x = (case x of None \<Rightarrow> 0 | Some v \<Rightarrow> v)"

text \<open>A value, or a default when there is none (\<^verbatim>\<open>x || d\<close>, \<^verbatim>\<open>x ?? d\<close>).\<close>

definition orElse :: "'a option \<Rightarrow> 'a \<Rightarrow> 'a" where
  "orElse x d = (case x of None \<Rightarrow> d | Some v \<Rightarrow> v)"

text \<open>
  What a handler's \<^verbatim>\<open>catch\<close> can receive: a schema violation, a statement
  the store rejects, or the RangeError of \<^verbatim>\<open>toISOString\<close> on an invalid date.
\<close>

datatype error = ZodError | StorageError | RangeError

subsection \<open>Decimal columns\<close>

text \<open>
  \<^verbatim>\<open>decimal("...", { precision: p, scale: s })\<close> of \<^verbatim>\<open>shared/schema.ts\<close> is
  PostgreSQL's \<^verbatim>\<open>numeric(p, s)\<close>: a value written to the column is rounded to
  \<open>s\<close> decimals, halves away from zero, and refused (numeric field overflow) when
  the rounded value has more than \<open>p - s\<close> digits before the point.
\<close>

definition pgRound :: "nat \<Rightarrow> decimal \<Rightarrow> decimal" where
  "pgRound scale x =
     (if 0 \<le> x then of_int \<lfloor>x * 10 ^ scale + 1 / 2\<rfloor> / 10 ^ scale
      else - (of_int \<lfloor>- x * 10 ^ scale + 1 / 2\<rfloor> / 10 ^ scale))"

definition fitsNumeric :: "nat \<Rightarrow> nat \<Rightarrow> decimal \<Rightarrow> bool" where
  "fitsNumeric precision scale x = (\<bar>pgRound scale x\<bar> < 10 ^ (precision - scale))"

subsection \<open>JavaScript numbers\<close>

text \<open>
  Where a handler or the client computes, it computes with JavaScript Numbers, which
  are IEEE 754 doubles: a finite double, an infinity or NaN. A finite double is kept
  as the rational it is; negative zero is not told apart from zero, which no
  operation used here can tell apart either. \<open>roundDouble\<close> gives the double
  nearest to a rational, ties to the even mantissa: 53 significant bits, binary
  exponents from -1022 (subnormal below) to 1023, an infinity beyond.
\<close>

datatype number = Finite rat | PosInf | NegInf | NaN

fun log2floor :: "nat \<Rightarrow> nat" where
  "log2floor n = (if n < 2 then 0 else Suc (log2floor (n div 2)))"

fun log10floor :: "nat \<Rightarrow> nat" where
  "log10floor n = (if n < 10 then 0 else Suc (log10floor (n div 10)))"

declare log2floor.simps [simp del] log10floor.simps [simp del]

definition ipow :: "rat \<Rightarrow> int \<Rightarrow> rat" where
  "ipow b i = (if 0 \<le> i then b ^ nat i else 1 / b ^ nat (- i))"

text \<open>
  The floor of the logarithm of a positive rational \<open>x\<close> to the base 2 or 10. Below
  one it is found from \<open>y = 1 / x\<close> and the floor \<open>f\<close> of the logarithm of \<open>y\<close>.
\<close>

definition belowOne :: "rat \<Rightarrow> rat \<Rightarrow> int \<Rightarrow> int" where
  "belowOne b y f = (if y = ipow b f then - f else - f - 1)"

definition ilog2 :: "rat \<Rightarrow> int" where
  "ilog2 x = (if 1 \<le> x then int (log2floor (nat \<lfloor>x\<rfloor>))
              else belowOne 2 (1 / x) (int (log2floor (nat \<lfloor>1 / x\<rfloor>))))"

definition ilog10 :: "rat \<Rightarrow> int" where
  "ilog10 x = (if 1 \<le> x then int (log10floor (nat \<lfloor>x\<rfloor>))
               else belowOne 10 (1 / x) (int (log10floor (nat \<lfloor>1 / x\<rfloor>))))"

text \<open>Rounding to the nearest integer, a half to the even one, given the floor and the rest.\<close>

definition tiesToEven :: "int \<Rightarrow> rat \<Rightarrow> int" where
  "tiesToEven f d = (if d < 1 / 2 then f else if 1 / 2 < d then f + 1
                     else if even f then f else f + 1)"

definition roundEven :: "rat \<Rightarrow> int" where
  "roundEven m = tiesToEven \<lfloor>m\<rfloor> (m - of_int \<lfloor>m\<rfloor>)"

text \<open>Rounding a magnitude to a multiple of the unit in the last place.\<close>

definition roundAt :: "rat \<Rightarrow> rat \<Rightarrow> rat" where
  "roundAt ulp a = of_int (roundEven (a / ulp)) * ulp"

definition mkDouble :: "bool \<Rightarrow> rat \<Rightarrow> number" where
  "mkDouble neg r = (if 2 ^ 1024 \<le> r then (if neg then NegInf else PosInf)
                     else Finite (if neg then - r else r))"

definition roundDouble :: "rat \<Rightarrow> number" where
  "roundDouble x =
     (if x = 0 then Finite 0
      else mkDouble (x < 0) (roundAt (ipow 2 (max (ilog2 \<bar>x\<bar>) (- 1022) - 52)) \<bar>x\<bar>))"

text \<open>\<^verbatim>\<open>parseFloat\<close> of the text of a decimal number: the double nearest to it.\<close>

definition parseFloat :: "decimal \<Rightarrow> number" where
  "parseFloat x = roundDouble x"

text \<open>The arithmetic and the comparison of Numbers: \<^verbatim>\<open>+\<close>, \<^verbatim>\<open>*\<close>, \<^verbatim>\<open>-\<close>, \<^verbatim>\<open>Math.abs\<close>, \<^verbatim>\<open>>\<close>.\<close>

fun js_neg :: "number \<Rightarrow> number" where
  "js_neg (Finite x) = Finite (- x)"
| "js_neg PosInf = NegInf"
| "js_neg NegInf = PosInf"
| "js_neg NaN = NaN"


fun js_sign :: "number \<Rightarrow> int" where
  "js_sign (Finite x) = (if x = 0 then 0 else if 0 < x then 1 else - 1)"
| "js_sign PosInf = 1"
| "js_sign NegInf = - 1"
| "js_sign NaN = 0"

fun js_add :: "number \<Rightarrow> number \<Rightarrow> number" where
  "js_add (Finite x) (Finite y) = roundDouble (x + y)"
| "js_add NaN b = NaN"
| "js_add a NaN = NaN"
| "js_add PosInf NegInf = NaN"
| "js_add NegInf PosInf = NaN"
| "js_add PosInf b = PosInf"
| "js_add a PosInf = PosInf"
| "js_add NegInf b = NegInf"
| "js_add a NegInf = NegInf"

fun js_mul :: "number \<Rightarrow> number \<Rightarrow> number" where
  "js_mul (Finite x) (Finite y) = roundDouble (x * y)"
| "js_mul NaN b = NaN"
| "js_mul a NaN = NaN"
| "js_mul a b = (if js_sign a * js_sign b = 0 then NaN
                 else if 0 < js_sign a * js_sign b then PosInf else NegInf)"

definition js_sub :: "number \<Rightarrow> number \<Rightarrow> number" where
  "js_sub a b = js_add a (js_neg b)"


text \<open>
  \<^verbatim>\<open>toString()\<close> of a finite Number is the text of the decimal number with the
  fewest significant digits that parses back to the Number and, among those, the one
  closest to it (the even last digit at a tie); seventeen digits always suffice.
  \<open>candidates\<close> looks at the two neighbours of \<open>x\<close> on the grid of step \<open>g\<close>.
\<close>

definition pick :: "rat \<Rightarrow> int \<Rightarrow> rat \<Rightarrow> rat \<Rightarrow> bool \<Rightarrow> bool \<Rightarrow> rat option" where
  "pick x s lo hi okLo okHi =
     (if okLo \<and> okHi then
        Some (if x - lo < hi - x then lo else if hi - x < x - lo then hi
              else if even s then lo else hi)
      else if okLo then Some lo else if okHi then Some hi else None)"

definition candidates :: "rat \<Rightarrow> rat \<Rightarrow> int \<Rightarrow> rat option" where
  "candidates x g s =
     pick x s (of_int s * g) (of_int s * g + g)
       (roundDouble (of_int s * g) = Finite x) (roundDouble (of_int s * g + g) = Finite x)"

fun shortestFrom :: "nat \<Rightarrow> rat \<Rightarrow> int \<Rightarrow> int \<Rightarrow> rat" where
  "shortestFrom 0 x e10 k = x"
| "shortestFrom (Suc fuel) x e10 k =
     (case candidates x (ipow 10 (e10 - (k - 1))) \<lfloor>x / ipow 10 (e10 - (k - 1))\<rfloor> of
        Some c \<Rightarrow> c
      | None \<Rightarrow> shortestFrom fuel x e10 (k + 1))"

definition shortest :: "rat \<Rightarrow> decimal" where
  "shortest x = (if x = 0 then 0
     else if 0 < x then shortestFrom 17 x (ilog10 x) 1
     else - shortestFrom 17 (- x) (ilog10 (- x)) 1)"

text \<open>
  What a \<^verbatim>\<open>numeric(p, s)\<close> column makes of the \<^verbatim>\<open>toString()\<close> text of a
  Number: it rounds the decimal number of the text, keeps \<^verbatim>\<open>'NaN'\<close> as NaN, and
  refuses \<^verbatim>\<open>'Infinity'\<close> and \<^verbatim>\<open>'-Infinity'\<close>.
\<close>

definition numericOfNumber :: "nat \<Rightarrow> nat \<Rightarrow> number \<Rightarrow> error + pgnumeric" where
  "numericOfNumber precision scale n =
     (case n of
        Finite x \<Rightarrow> if fitsNumeric precision scale (shortest x)
                    then Inr (Num (pgRound scale (shortest x))) else Inl StorageError
      | NaN \<Rightarrow> Inr NumNaN
      | _ \<Rightarrow> Inl StorageError)"

subsection \<open>Schema validation\<close>

definition insertSalesTransactionSchema_parse ::
  "sales_transaction_insert \<Rightarrow> error + sales_transaction_insert" where
  "insertSalesTransactionSchema_parse t =
     (if tx_invoiceNumber t \<noteq> None \<and> tx_stationId t \<noteq> None \<and> tx_customerId t \<noteq> None
         \<and> tx_userId t \<noteq> None \<and> tx_subtotal t \<noteq> None \<and> tx_totalAmount t \<noteq> None
         \<and> (case tx_paymentMethod t of None \<Rightarrow> False | Some m \<Rightarrow> m \<in> set paymentMethodEnum)
      then Inr t else Inl ZodError)"

definition insertSalesTransactionItemSchema_parse ::
  "sales_item_insert \<Rightarrow> error + sales_item_insert" where
  "insertSalesTransactionItemSchema_parse i =
     (if it_transactionId i \<noteq> None \<and> it_productId i \<noteq> None \<and> it_quantity i \<noteq> None
         \<and> it_unitPrice i \<noteq> None \<and> it_totalPrice i \<noteq> None
      then Inr i else Inl ZodError)"

section \<open>Storage layer\<close>

text \<open>
  The module \<^verbatim>\<open>server/storage.ts\<close> is not among the sources; only its callers
  in \<^verbatim>\<open>server/routes.ts\<close> are. Its operations are modelled from the spec: each
  is a plain insert, update or delete on its table, committed at once ("CRUD
  operations per entity", steps "not wrapped in a single atomic rollback"). An insert
  fails where the table declaration in \<^verbatim>\<open>shared/schema.ts\<close> rejects it: a
  \<^verbatim>\<open>notNull\<close> column without value, or a \<^verbatim>\<open>unique\<close> column with a value
  already present.
\<close>

text \<open>
  Modelled from the spec: \<^verbatim>\<open>storage.createSalesTransaction\<close> is missing from
  the sources. The spec: "persist the transaction header"; the invoice number's
  "uniqueness is enforced by a storage-level unique constraint, not pre-checked".
  Absent amounts take the column default 0; the five amounts are
  \<^verbatim>\<open>decimal(10, 2)\<close> columns.
\<close>

definition createSalesTransaction ::
  "sales_transaction_insert \<Rightarrow> store \<Rightarrow> error + (sales_transaction \<times> store)" where
  "createSalesTransaction t db =
     (case (tx_invoiceNumber t, tx_stationId t, tx_customerId t, tx_userId t,
            tx_paymentMethod t, tx_subtotal t, tx_totalAmount t) of
        (Some ino, Some sid, Some cid, Some uid, Some pm, Some subt, Some tot) \<Rightarrow>
          if ino \<in> st_invoiceNumber ` set (salesTransactions db) then Inl StorageError
          else if \<not> (fitsNumeric 10 2 subt \<and> fitsNumeric 10 2 tot
                       \<and> fitsNumeric 10 2 (parseFloatOr0 (tx_taxAmount t))
                       \<and> fitsNumeric 10 2 (parseFloatOr0 (tx_paidAmount t))
                       \<and> fitsNumeric 10 2 (parseFloatOr0 (tx_outstandingAmount t)))
          then Inl StorageError
          else
            let row = \<lparr>st_id = nextId db, st_invoiceNumber = ino, st_stationId = sid,
                       st_customerId = cid, st_userId = uid, st_paymentMethod = pm,
                       st_subtotal = pgRound 2 subt,
                       st_taxAmount = pgRound 2 (parseFloatOr0 (tx_taxAmount t)),
                       st_totalAmount = pgRound 2 tot,
                       st_paidAmount = pgRound 2 (parseFloatOr0 (tx_paidAmount t)),
                       st_outstandingAmount = pgRound 2 (parseFloatOr0 (tx_outstandingAmount t))\<rparr>
            in Inr (row, db\<lparr>salesTransactions := salesTransactions db @ [row],
                            nextId := Suc (nextId db)\<rparr>)
      | _ \<Rightarrow> Inl StorageError)"

text \<open>
  Modelled from the spec: \<^verbatim>\<open>storage.createSalesTransactionItem\<close> is missing
  from the sources. The spec: "persist it with a back-reference to the transaction id".
  The quantity is a \<^verbatim>\<open>decimal(10, 3)\<close> column, the two prices are
  \<^verbatim>\<open>decimal(10, 2)\<close> columns.
\<close>

definition createSalesTransactionItem ::
  "sales_item_insert \<Rightarrow> store \<Rightarrow> error + (sales_transaction_item \<times> store)" where
  "createSalesTransactionItem i db =
     (case (it_transactionId i, it_productId i, it_quantity i, it_unitPrice i, it_totalPrice i) of
        (Some tid, Some pid, Some q, Some up, Some tp) \<Rightarrow>
          if \<not> (fitsNumeric 10 3 q \<and> fitsNumeric 10 2 up \<and> fitsNumeric 10 2 tp)
          then Inl StorageError
          else
            let row = \<lparr>sti_id = nextId db, sti_transactionId = tid, sti_productId = pid,
                       sti_tankId = it_tankId i, sti_quantity = pgRound 3 q,
                       sti_unitPrice = pgRound 2 up, sti_totalPrice = pgRound 2 tp\<rparr>
            in Inr (row, db\<lparr>salesTransactionItems := salesTransactionItems db @ [row],
                            nextId := Suc (nextId db)\<rparr>)
      | _ \<Rightarrow> Inl StorageError)"

text \<open>
  Modelled from the spec: \<^verbatim>\<open>storage.createStockMovement\<close> is missing from the
  sources. The spec: a stock movement "records previous/new stock, direction
  (in/out/adjustment)", with "newStock = previousStock \<plusminus> quantity depending on
  direction", and a tank's currentStock is "mutated only through StockMovement
  creation". So the operation takes the quantity and the tank's stock as the
  \<^verbatim>\<open>decimal(10, 3)\<close> columns of the movement hold them, subtracts the quantity for
  "out" and adds it otherwise, appends the row and writes the new stock to the tank's
  \<^verbatim>\<open>decimal(10, 2)\<close> column. A movement for a tank that does not exist, without
  quantity, station or user, or with a value a column cannot hold, fails.
\<close>

definition createStockMovement ::
  "stock_movement_insert \<Rightarrow> store \<Rightarrow> error + (stock_movement \<times> store)" where
  "createStockMovement m db =
     (case (tanks db (smi_tankId m), smi_quantity m, smi_stationId m, smi_userId m) of
        (Some tk, Some q, Some sid, Some uid) \<Rightarrow>
          if smi_movementType m \<notin> {''in'', ''out'', ''adjustment''} then Inl StorageError
          else
            let quantity = pgRound 3 q;
                previousStock = pgRound 3 (parseFloatOr0 (t_currentStock tk));
                newStock = (if smi_movementType m = ''out'' then previousStock - quantity
                            else previousStock + quantity);
                row = \<lparr>sm_id = nextId db, sm_tankId = smi_tankId m, sm_stationId = sid,
                       sm_userId = uid, sm_movementType = smi_movementType m,
                       sm_quantity = quantity, sm_previousStock = previousStock,
                       sm_newStock = newStock, sm_referenceId = smi_referenceId m,
                       sm_referenceType = smi_referenceType m\<rparr>
            in if \<not> (fitsNumeric 10 3 q \<and> fitsNumeric 10 3 (parseFloatOr0 (t_currentStock tk))
                        \<and> fitsNumeric 10 3 newStock \<and> fitsNumeric 10 2 newStock)
               then Inl StorageError
               else Inr (row, db\<lparr>stockMovements := stockMovements db @ [row],
                                 tanks := (tanks db)(smi_tankId m \<mapsto>
                                            tk\<lparr>t_currentStock := Some (pgRound 2 newStock)\<rparr>),
                                 nextId := Suc (nextId db)\<rparr>)
      | _ \<Rightarrow> Inl StorageError)"

text \<open>
  Modelled from the spec: \<^verbatim>\<open>storage.updateCustomerOutstanding\<close> is missing from
  the sources. The spec: "increase the customer's outstandingAmount by the transaction's
  outstanding amount". An update of a customer that does not exist changes no row.
\<close>

definition updateCustomerOutstanding :: "string \<Rightarrow> decimal \<Rightarrow> store \<Rightarrow> store" where
  "updateCustomerOutstanding cid amount db =
     (case customers db cid of
        None \<Rightarrow> db
      | Some c \<Rightarrow>
          db\<lparr>customers := (customers db)(cid \<mapsto>
                c\<lparr>c_outstandingAmount := Some (parseFloatOr0 (c_outstandingAmount c) + amount)\<rparr>)\<rparr>)"

section \<open>POST /api/sales (server/routes.ts)\<close>

type_synonym sales_response = "nat \<times> (sales_transaction, sales_transaction_item) body"

text \<open>The test \<^verbatim>\<open>item.tankId && item.tankId !== 'null'\<close> of the loop.\<close>

definition specifiesTank :: "sales_item_insert \<Rightarrow> bool" where
  "specifiesTank item = (truthy (it_tankId item) \<and> it_tankId item \<noteq> Some ''null'')"

text \<open>The object the loop hands to \<^verbatim>\<open>storage.createStockMovement\<close>.\<close>

definition saleMovement ::
  "sales_transaction \<Rightarrow> sales_transaction_insert \<Rightarrow> sales_item_insert \<Rightarrow> stock_movement_insert" where
  "saleMovement createdTransaction validatedTransaction item =
     \<lparr>smi_tankId = (case it_tankId item of Some t \<Rightarrow> t | None \<Rightarrow> []),
      smi_movementType = ''out'',
      smi_quantity = it_quantity item,
      smi_referenceType = Some ''sale'',
      smi_referenceId = Some (st_id createdTransaction),
      smi_stationId = tx_stationId validatedTransaction,
      smi_userId = tx_userId validatedTransaction\<rparr>"

text \<open>
  The loop over the request's items. It returns the created items, or the error that
  ended it, together with the store as it is at that moment: nothing written before an
  error is undone.
\<close>

fun sale_items_loop ::
  "sales_transaction \<Rightarrow> sales_transaction_insert \<Rightarrow> sales_item_insert list \<Rightarrow>
   sales_transaction_item list \<Rightarrow> store \<Rightarrow> (error + sales_transaction_item list) \<times> store" where
  "sale_items_loop createdTransaction validatedTransaction [] createdItems db =
     (Inr createdItems, db)"
| "sale_items_loop createdTransaction validatedTransaction (item # rest) createdItems db =
     (case insertSalesTransactionItemSchema_parse
             (item\<lparr>it_transactionId := Some (st_id createdTransaction)\<rparr>) of
        Inl e \<Rightarrow> (Inl e, db)
      | Inr validatedItem \<Rightarrow>
          (case createSalesTransactionItem validatedItem db of
             Inl e \<Rightarrow> (Inl e, db)
           | Inr (createdItem, db1) \<Rightarrow>
               if specifiesTank item then
                 (case createStockMovement
                         (saleMovement createdTransaction validatedTransaction item) db1 of
                    Inl e \<Rightarrow> (Inl e, db1)
                  | Inr (_, db2) \<Rightarrow>
                      sale_items_loop createdTransaction validatedTransaction rest
                        (createdItems @ [createdItem]) db2)
               else
                 sale_items_loop createdTransaction validatedTransaction rest
                   (createdItems @ [createdItem]) db1))"

text \<open>The \<^verbatim>\<open>catch\<close> block: a ZodError and any other error both answer 400.\<close>

definition sales_catch :: "error \<Rightarrow> sales_response" where
  "sales_catch e = (if e = ZodError then (400, Message ''Validation failed'')
                    else (400, Message ''Invalid sales data''))"

text \<open>
  The handler. \<open>stamp\<close> is \<^verbatim>\<open>Date.now().toString().slice(-6)\<close>, the clock's
  contribution to the invoice number.
\<close>

definition post_sales ::
  "string \<Rightarrow> sales_transaction_insert \<Rightarrow> sales_item_insert list \<Rightarrow> store \<Rightarrow>
   sales_response \<times> store" where
  "post_sales stamp transaction items db =
     (let invoiceNumber = ''SAL'' @ stamp in
      case insertSalesTransactionSchema_parse (transaction\<lparr>tx_invoiceNumber := Some invoiceNumber\<rparr>) of
        Inl e \<Rightarrow> (sales_catch e, db)
      | Inr validatedTransaction \<Rightarrow>
          (case createSalesTransaction validatedTransaction db of
             Inl e \<Rightarrow> (sales_catch e, db)
           | Inr (createdTransaction, db1) \<Rightarrow>
               (case sale_items_loop createdTransaction validatedTransaction items [] db1 of
                  (Inl e, db2) \<Rightarrow> (sales_catch e, db2)
                | (Inr createdItems, db2) \<Rightarrow>
                    let db3 =
                      (if tx_paymentMethod validatedTransaction = Some ''credit''
                          \<and> truthy (tx_customerId validatedTransaction)
                       then updateCustomerOutstanding
                              (case tx_customerId validatedTransaction of Some c \<Rightarrow> c | None \<Rightarrow> [])
                              (parseFloatOr0 (tx_outstandingAmount validatedTransaction)) db2
                       else db2)
                    in ((201, Created createdTransaction createdItems), db3))))"

section \<open>PUT /api/sales/:transactionId (server/routes.ts)\<close>

text \<open>
  Modelled from the spec: \<^verbatim>\<open>storage.getSalesTransaction\<close> is missing from the
  sources; a lookup by primary key.
\<close>

definition getSalesTransaction :: "rowid \<Rightarrow> store \<Rightarrow> sales_transaction option" where
  "getSalesTransaction tid db = find (\<lambda>r. st_id r = tid) (salesTransactions db)"

text \<open>
  Modelled from the spec: the row that \<^verbatim>\<open>storage.updateSalesTransaction\<close>
  (missing from the sources) writes for a stored row and a submitted header.
\<close>

definition applySalesTransactionUpdate ::
  "sales_transaction_insert \<Rightarrow> sales_transaction \<Rightarrow> sales_transaction" where
  "applySalesTransactionUpdate t r =
     r\<lparr>st_invoiceNumber := orElse (tx_invoiceNumber t) (st_invoiceNumber r),
       st_stationId := orElse (tx_stationId t) (st_stationId r),
       st_customerId := orElse (tx_customerId t) (st_customerId r),
       st_userId := orElse (tx_userId t) (st_userId r),
       st_paymentMethod := orElse (tx_paymentMethod t) (st_paymentMethod r),
       st_subtotal := pgRound 2 (orElse (tx_subtotal t) (st_subtotal r)),
       st_taxAmount := pgRound 2 (orElse (tx_taxAmount t) (st_taxAmount r)),
       st_totalAmount := pgRound 2 (orElse (tx_totalAmount t) (st_totalAmount r)),
       st_paidAmount := pgRound 2 (orElse (tx_paidAmount t) (st_paidAmount r)),
       st_outstandingAmount :=
         pgRound 2 (orElse (tx_outstandingAmount t) (st_outstandingAmount r))\<rparr>"

text \<open>
  Modelled from the spec: \<^verbatim>\<open>storage.updateSalesTransaction\<close> is missing from
  the sources. The spec: the route "updates header". The update overwrites the columns
  for which the submitted object has a value and keeps the others; it fails where the
  table rejects the new row (a payment method outside the enum, an invoice number
  another row has, an amount beyond \<^verbatim>\<open>decimal(10, 2)\<close>).
\<close>

definition updateSalesTransaction ::
  "rowid \<Rightarrow> sales_transaction_insert \<Rightarrow> store \<Rightarrow> error + (sales_transaction \<times> store)" where
  "updateSalesTransaction tid t db =
     (case getSalesTransaction tid db of
        None \<Rightarrow> Inl StorageError
      | Some r \<Rightarrow>
          if (case tx_paymentMethod t of None \<Rightarrow> False | Some m \<Rightarrow> m \<notin> set paymentMethodEnum)
             \<or> (case tx_invoiceNumber t of None \<Rightarrow> False
                 | Some ino \<Rightarrow> ino \<in> st_invoiceNumber `
                                   set (filter (\<lambda>x. st_id x \<noteq> tid) (salesTransactions db)))
             \<or> \<not> (fitsNumeric 10 2 (orElse (tx_subtotal t) 0)
                     \<and> fitsNumeric 10 2 (orElse (tx_taxAmount t) 0)
                     \<and> fitsNumeric 10 2 (orElse (tx_totalAmount t) 0)
                     \<and> fitsNumeric 10 2 (orElse (tx_paidAmount t) 0)
                     \<and> fitsNumeric 10 2 (orElse (tx_outstandingAmount t) 0))
          then Inl StorageError
          else Inr (applySalesTransactionUpdate t r,
                    db\<lparr>salesTransactions :=
                         map (\<lambda>x. if st_id x = tid then applySalesTransactionUpdate t x else x)
                             (salesTransactions db)\<rparr>))"

text \<open>
  Modelled from the spec: \<^verbatim>\<open>storage.deleteSalesTransactionItems\<close> is missing
  from the sources. The spec: the route "replaces items (delete-then-recreate)".
\<close>

definition deleteSalesTransactionItems :: "rowid \<Rightarrow> store \<Rightarrow> store" where
  "deleteSalesTransactionItems tid db =
     db\<lparr>salesTransactionItems :=
          filter (\<lambda>i. sti_transactionId i \<noteq> tid) (salesTransactionItems db)\<rparr>"

text \<open>The loop that recreates the items. It passes each submitted item to the store unvalidated.\<close>

fun update_items_loop ::
  "rowid \<Rightarrow> sales_item_insert list \<Rightarrow> sales_transaction_item list \<Rightarrow> store \<Rightarrow>
   (error + sales_transaction_item list) \<times> store" where
  "update_items_loop transactionId [] updatedItems db = (Inr updatedItems, db)"
| "update_items_loop transactionId (item # rest) updatedItems db =
     (case createSalesTransactionItem (item\<lparr>it_transactionId := Some transactionId\<rparr>) db of
        Inl e \<Rightarrow> (Inl e, db)
      | Inr (newItem, db1) \<Rightarrow>
          update_items_loop transactionId rest (updatedItems @ [newItem]) db1)"

definition put_sales ::
  "user \<Rightarrow> rowid \<Rightarrow> sales_transaction_insert \<Rightarrow> sales_item_insert list \<Rightarrow> store \<Rightarrow>
   sales_response \<times> store" where
  "put_sales usr transactionId transaction items db =
     (case getSalesTransaction transactionId db of
        None \<Rightarrow> ((404, Message ''Transaction not found''), db)
      | Some existingTransaction \<Rightarrow>
          if u_role usr \<noteq> ''admin''
             \<and> u_stationId usr \<noteq> Some (st_stationId existingTransaction)
          then ((403, Message ''Access denied''), db)
          else
            (case updateSalesTransaction transactionId transaction db of
               Inl e \<Rightarrow> ((500, Message ''Failed to update sale''), db)
             | Inr (updatedTransaction, db1) \<Rightarrow>
                 (case update_items_loop transactionId items []
                         (deleteSalesTransactionItems transactionId db1) of
                    (Inl e, db2) \<Rightarrow> ((500, Message ''Failed to update sale''), db2)
                  | (Inr updatedItems, db2) \<Rightarrow>
                      ((200, Created updatedTransaction updatedItems), db2))))"

section \<open>POST /api/purchase-orders (server/routes.ts)\<close>






















section \<open>Journal entries\<close>










section \<open>DELETE /api/customers/:id and DELETE /api/suppliers/:id (server/routes.ts)\<close>

text \<open>
  Modelled from the spec: \<^verbatim>\<open>storage.getCustomer\<close> is missing from the sources
  ("CRUD operations per entity"); a lookup by primary key.
\<close>

definition getCustomer :: "string \<Rightarrow> store \<Rightarrow> customer option" where
  "getCustomer cid db = customers db cid"

text \<open>
  Modelled from the spec: \<^verbatim>\<open>storage.deleteCustomer\<close> is missing from the
  sources ("CRUD operations per entity"); a delete by primary key.
\<close>

definition deleteCustomer :: "string \<Rightarrow> store \<Rightarrow> store" where
  "deleteCustomer cid db = db\<lparr>customers := (customers db)(cid := None)\<rparr>"

text \<open>
  Modelled from the spec: \<^verbatim>\<open>storage.getSupplier\<close> is missing from the sources
  ("CRUD operations per entity"); a lookup by primary key.
\<close>

definition getSupplier :: "string \<Rightarrow> store \<Rightarrow> supplier option" where
  "getSupplier sid db = suppliers db sid"

text \<open>
  Modelled from the spec: \<^verbatim>\<open>storage.deleteSupplier\<close> is missing from the
  sources ("CRUD operations per entity"); a delete by primary key.
\<close>

definition deleteSupplier :: "string \<Rightarrow> store \<Rightarrow> store" where
  "deleteSupplier sid db = db\<lparr>suppliers := (suppliers db)(sid := None)\<rparr>"

text \<open>The two handlers.\<close>

definition delete_customer :: "string \<Rightarrow> store \<Rightarrow> (nat \<times> string) \<times> store" where
  "delete_customer cid db =
     (case getCustomer cid db of
        None \<Rightarrow> ((404, ''Customer not found''), db)
      | Some c \<Rightarrow>
          if parseFloatOr0 (c_outstandingAmount c) > 0
          then ((400, ''Cannot delete customer with outstanding amount''), db)
          else ((200, ''Customer deleted successfully''), deleteCustomer cid db))"

definition delete_supplier :: "string \<Rightarrow> store \<Rightarrow> (nat \<times> string) \<times> store" where
  "delete_supplier sid db =
     (case getSupplier sid db of
        None \<Rightarrow> ((404, ''Supplier not found''), db)
      | Some s \<Rightarrow>
          if parseFloatOr0 (s_outstandingAmount s) > 0
          then ((400, ''Cannot delete supplier with outstanding amount''), db)
          else ((200, ''Supplier deleted successfully''), deleteSupplier sid db))"

section \<open>Example data\<close>

text \<open>
  A station with one credit customer, one supplier and one tank, and the requests used
  to run the handlers on concrete inputs.
\<close>

definition emptyStore :: store where
  "emptyStore = \<lparr>customers = Map.empty, suppliers = Map.empty, tanks = Map.empty,
     settings = Map.empty, salesTransactions = [], salesTransactionItems = [],
     stockMovements = [], purchaseOrders = [], purchaseOrderItems = [], nextId = 0\<rparr>"

definition stationStore :: store where
  "stationStore = emptyStore
     \<lparr>customers := [''C1'' \<mapsto> \<lparr>c_name = ''Fleet Co'', c_outstandingAmount = Some 250\<rparr>],
      suppliers := [''V1'' \<mapsto> \<lparr>s_name = ''Refinery'', s_outstandingAmount = Some 0\<rparr>],
      tanks := [''T1'' \<mapsto> \<lparr>t_name = ''Petrol'', t_currentStock = Some 100\<rparr>]\<rparr>"

definition creditSale :: sales_transaction_insert where
  "creditSale = \<lparr>tx_invoiceNumber = None, tx_stationId = Some ''S1'', tx_customerId = Some ''C1'',
     tx_userId = Some ''U1'', tx_paymentMethod = Some ''credit'', tx_subtotal = Some 100,
     tx_taxAmount = Some 0, tx_totalAmount = Some 100, tx_paidAmount = Some 0,
     tx_outstandingAmount = Some 100\<rparr>"

definition fuelItem :: sales_item_insert where
  "fuelItem = \<lparr>it_transactionId = None, it_productId = Some ''P1'', it_tankId = Some ''T1'',
     it_quantity = Some 10, it_unitPrice = Some 10, it_totalPrice = Some 100\<rparr>"

definition secondFuelItem :: sales_item_insert where
  "secondFuelItem = \<lparr>it_transactionId = None, it_productId = Some ''P1'', it_tankId = Some ''T1'',
     it_quantity = Some 20, it_unitPrice = Some 10, it_totalPrice = Some 200\<rparr>"

definition lubricantItem :: sales_item_insert where
  "lubricantItem = \<lparr>it_transactionId = None, it_productId = Some ''P2'', it_tankId = None,
     it_quantity = Some 2, it_unitPrice = Some 15, it_totalPrice = Some 30\<rparr>"

definition fractionalFuelItem :: sales_item_insert where
  "fractionalFuelItem = \<lparr>it_transactionId = None, it_productId = Some ''P1'', it_tankId = Some ''T1'',
     it_quantity = Some (2001 / 200), it_unitPrice = Some 10, it_totalPrice = Some (2001 / 20)\<rparr>"

definition overscaleItem :: sales_item_insert where
  "overscaleItem = \<lparr>it_transactionId = None, it_productId = Some ''P1'', it_tankId = None,
     it_quantity = Some (20001 / 2000), it_unitPrice = Some (1999 / 200),
     it_totalPrice = Some (99999 / 1000)\<rparr>"

definition malformedItem :: sales_item_insert where
  "malformedItem = \<lparr>it_transactionId = None, it_productId = None, it_tankId = Some ''T1'',
     it_quantity = Some 5, it_unitPrice = Some 10, it_totalPrice = Some 50\<rparr>"

text \<open>The header row of the credit sale, and the store after it and after two items.\<close>

definition createdSale :: sales_transaction where
  "createdSale = \<lparr>st_id = 0, st_invoiceNumber = ''SAL123456'', st_stationId = ''S1'',
     st_customerId = ''C1'', st_userId = ''U1'', st_paymentMethod = ''credit'',
     st_subtotal = 100, st_taxAmount = 0, st_totalAmount = 100, st_paidAmount = 0,
     st_outstandingAmount = 100\<rparr>"

definition afterHeader :: store where
  "afterHeader = stationStore\<lparr>salesTransactions := [createdSale], nextId := 1\<rparr>"

definition afterTwoItems :: store where
  "afterTwoItems = stationStore
     \<lparr>tanks := [''T1'' \<mapsto> \<lparr>t_name = ''Petrol'', t_currentStock = Some 90\<rparr>],
      salesTransactions := [createdSale],
      salesTransactionItems :=
        [\<lparr>sti_id = 1, sti_transactionId = 0, sti_productId = ''P1'', sti_tankId = Some ''T1'',
          sti_quantity = 10, sti_unitPrice = 10, sti_totalPrice = 100\<rparr>,
         \<lparr>sti_id = 3, sti_transactionId = 0, sti_productId = ''P2'', sti_tankId = None,
          sti_quantity = 2, sti_unitPrice = 15, sti_totalPrice = 30\<rparr>],
      stockMovements :=
        [\<lparr>sm_id = 2, sm_tankId = ''T1'', sm_stationId = ''S1'', sm_userId = ''U1'',
          sm_movementType = ''out'', sm_quantity = 10, sm_previousStock = 100,
          sm_newStock = 90, sm_referenceId = Some 0, sm_referenceType = Some ''sale''\<rparr>],
      nextId := 4\<rparr>"

text \<open>The store after the credit sale of one fuel item, two callers, and an edit of that sale.\<close>

definition soldStore :: store where
  "soldStore = stationStore
       \<lparr>customers := [''C1'' \<mapsto> \<lparr>c_name = ''Fleet Co'', c_outstandingAmount = Some 350\<rparr>],
        tanks := [''T1'' \<mapsto> \<lparr>t_name = ''Petrol'', t_currentStock = Some 90\<rparr>],
        salesTransactions := [createdSale],
        salesTransactionItems :=
          [\<lparr>sti_id = 1, sti_transactionId = 0, sti_productId = ''P1'', sti_tankId = Some ''T1'',
            sti_quantity = 10, sti_unitPrice = 10, sti_totalPrice = 100\<rparr>],
        stockMovements :=
          [\<lparr>sm_id = 2, sm_tankId = ''T1'', sm_stationId = ''S1'', sm_userId = ''U1'',
            sm_movementType = ''out'', sm_quantity = 10, sm_previousStock = 100,
            sm_newStock = 90, sm_referenceId = Some 0, sm_referenceType = Some ''sale''\<rparr>],
        nextId := 3\<rparr>"

definition managerUser :: user where
  "managerUser = \<lparr>u_id = ''U2'', u_role = ''manager'', u_stationId = Some ''S1''\<rparr>"

definition headerEdit :: sales_transaction_insert where
  "headerEdit = \<lparr>tx_invoiceNumber = None, tx_stationId = None, tx_customerId = None,
     tx_userId = None, tx_paymentMethod = Some ''credit'', tx_subtotal = Some 230,
     tx_taxAmount = None, tx_totalAmount = Some 230, tx_paidAmount = Some 0,
     tx_outstandingAmount = Some 230\<rparr>"

text \<open>Customers and suppliers that owe, are owed, or have no balance recorded.\<close>

definition overpaidStore :: store where
  "overpaidStore = emptyStore
     \<lparr>customers := [''C1'' \<mapsto> \<lparr>c_name = ''Fleet Co'', c_outstandingAmount = Some 250\<rparr>,
                    ''C2'' \<mapsto> \<lparr>c_name = ''Taxi Union'', c_outstandingAmount = Some (- 5)\<rparr>,
                    ''C3'' \<mapsto> \<lparr>c_name = ''Walk-in'', c_outstandingAmount = None\<rparr>],
      suppliers := [''V1'' \<mapsto> \<lparr>s_name = ''Refinery'', s_outstandingAmount = Some 1200\<rparr>,
                    ''V2'' \<mapsto> \<lparr>s_name = ''Lubricants Ltd'', s_outstandingAmount = Some (- 5)\<rparr>]\<rparr>"










section \<open>Facts about the storage operations\<close>

lemma createSalesTransaction_Inr:
  assumes "createSalesTransaction t db = Inr (ct, db1)"
  shows "db1 = db\<lparr>salesTransactions := salesTransactions db @ [ct], nextId := Suc (nextId db)\<rparr>"
    and "st_id ct = nextId db"
    and "Some (st_invoiceNumber ct) = tx_invoiceNumber t"
    and "st_invoiceNumber ct \<notin> st_invoiceNumber ` set (salesTransactions db)"
  using assms
  by (auto simp: createSalesTransaction_def Let_def split: option.splits if_splits)

lemma createSalesTransactionItem_Inr:
  assumes "createSalesTransactionItem i db = Inr (r, db1)"
  shows "db1 = db\<lparr>salesTransactionItems := salesTransactionItems db @ [r], nextId := Suc (nextId db)\<rparr>"
    and "Some (sti_transactionId r) = it_transactionId i"
    and "Some (sti_productId r) = it_productId i"
    and "sti_tankId r = it_tankId i"
    and "Some (sti_quantity r) = map_option (pgRound 3) (it_quantity i)"
    and "Some (sti_unitPrice r) = map_option (pgRound 2) (it_unitPrice i)"
    and "Some (sti_totalPrice r) = map_option (pgRound 2) (it_totalPrice i)"
  using assms
  by (auto simp: createSalesTransactionItem_def Let_def split: option.splits if_splits)

lemma createStockMovement_Inr:
  assumes "createStockMovement m db = Inr (row, db1)"
  shows "\<exists>tk. tanks db (smi_tankId m) = Some tk
           \<and> sm_previousStock row = pgRound 3 (parseFloatOr0 (t_currentStock tk))
           \<and> db1 = db\<lparr>stockMovements := stockMovements db @ [row],
                      tanks := (tanks db)(smi_tankId m \<mapsto>
                                 tk\<lparr>t_currentStock := Some (pgRound 2 (sm_newStock row))\<rparr>),
                      nextId := Suc (nextId db)\<rparr>"
    and "sm_tankId row = smi_tankId m"
    and "sm_movementType row = smi_movementType m"
    and "Some (sm_quantity row) = map_option (pgRound 3) (smi_quantity m)"
    and "sm_referenceType row = smi_referenceType m"
    and "sm_referenceId row = smi_referenceId m"
    and "smi_movementType m = ''out'' \<Longrightarrow> sm_previousStock row - sm_quantity row = sm_newStock row"
  using assms
  by (auto simp: createStockMovement_def Let_def split: option.splits if_splits)

section \<open>Facts about the item loop of POST /api/sales\<close>

text \<open>One successful round of the loop, with or without a stock movement.\<close>

lemma sale_items_loop_Cons_Inr:
  assumes "sale_items_loop ct vt (item # rest) created db = (Inr created', db')"
  obtains (tank) r db1 m db2 where
      "createSalesTransactionItem (item\<lparr>it_transactionId := Some (st_id ct)\<rparr>) db = Inr (r, db1)"
      "specifiesTank item"
      "createStockMovement (saleMovement ct vt item) db1 = Inr (m, db2)"
      "sale_items_loop ct vt rest (created @ [r]) db2 = (Inr created', db')"
  | (notank) r db1 where
      "createSalesTransactionItem (item\<lparr>it_transactionId := Some (st_id ct)\<rparr>) db = Inr (r, db1)"
      "\<not> specifiesTank item"
      "sale_items_loop ct vt rest (created @ [r]) db1 = (Inr created', db')"
  using assms
  by (auto simp: insertSalesTransactionItemSchema_parse_def
      split: sum.splits prod.splits if_splits)

lemma specifiesTank_tankId:
  "specifiesTank item \<Longrightarrow> Some (smi_tankId (saleMovement ct vt item)) = it_tankId item"
  by (auto simp: specifiesTank_def truthy_def saleMovement_def split: option.splits)


text \<open>
  What a completed loop has done to the stock: one movement per item with a tank, in
  item order, each subtracting its quantity, and every tank left at the new stock of
  the last movement made for it.
\<close>

lemma sale_items_loop_movements:
  assumes "sale_items_loop ct vt items created db = (Inr created', db')"
  shows "\<exists>ms. stockMovements db' = stockMovements db @ ms
     \<and> map (\<lambda>m. (Some (sm_tankId m), sm_movementType m, Some (sm_quantity m),
                  sm_referenceType m, sm_referenceId m)) ms
       = map (\<lambda>i. (it_tankId i, ''out'', map_option (pgRound 3) (it_quantity i), Some ''sale'',
                    Some (st_id ct)))
             (filter specifiesTank items)
     \<and> (\<forall>m \<in> set ms. sm_previousStock m - sm_quantity m = sm_newStock m)
     \<and> (\<forall>t. tanks db' t =
            (if filter (\<lambda>m. sm_tankId m = t) ms = [] then tanks db t
             else map_option
                    (\<lambda>tk. tk\<lparr>t_currentStock :=
                               Some (pgRound 2 (sm_newStock (last (filter (\<lambda>m. sm_tankId m = t) ms))))\<rparr>)
                    (tanks db t)))"
  using assms
proof (induction items arbitrary: created db)
  case Nil
  then show ?case by simp
next
  case (Cons item rest)
  from Cons.prems show ?case
  proof (cases rule: sale_items_loop_Cons_Inr)
    case (notank r db1)
    from Cons.IH[OF notank(3)] obtain ms where ms:
      "stockMovements db' = stockMovements db1 @ ms"
      "map (\<lambda>m. (Some (sm_tankId m), sm_movementType m, Some (sm_quantity m),
                  sm_referenceType m, sm_referenceId m)) ms
       = map (\<lambda>i. (it_tankId i, ''out'', map_option (pgRound 3) (it_quantity i), Some ''sale'',
                    Some (st_id ct)))
             (filter specifiesTank rest)"
      "\<forall>m \<in> set ms. sm_previousStock m - sm_quantity m = sm_newStock m"
      "\<forall>t. tanks db' t =
            (if filter (\<lambda>m. sm_tankId m = t) ms = [] then tanks db1 t
             else map_option
                    (\<lambda>tk. tk\<lparr>t_currentStock :=
                               Some (pgRound 2 (sm_newStock (last (filter (\<lambda>m. sm_tankId m = t) ms))))\<rparr>)
                    (tanks db1 t))"
      by blast
    have db1: "stockMovements db1 = stockMovements db" "tanks db1 = tanks db"
      using createSalesTransactionItem_Inr(1)[OF notank(1)] by simp_all
    show ?thesis
      apply (rule exI[of _ ms])
      using ms notank(2) by (simp add: db1)
  next
    case (tank r db1 m db2)
    from Cons.IH[OF tank(4)] obtain ms where ms:
      "stockMovements db' = stockMovements db2 @ ms"
      "map (\<lambda>m. (Some (sm_tankId m), sm_movementType m, Some (sm_quantity m),
                  sm_referenceType m, sm_referenceId m)) ms
       = map (\<lambda>i. (it_tankId i, ''out'', map_option (pgRound 3) (it_quantity i), Some ''sale'',
                    Some (st_id ct)))
             (filter specifiesTank rest)"
      "\<forall>m \<in> set ms. sm_previousStock m - sm_quantity m = sm_newStock m"
      "\<forall>t. tanks db' t =
            (if filter (\<lambda>m. sm_tankId m = t) ms = [] then tanks db2 t
             else map_option
                    (\<lambda>tk. tk\<lparr>t_currentStock :=
                               Some (pgRound 2 (sm_newStock (last (filter (\<lambda>m. sm_tankId m = t) ms))))\<rparr>)
                    (tanks db2 t))"
      by blast
    have db1: "stockMovements db1 = stockMovements db" "tanks db1 = tanks db"
      using createSalesTransactionItem_Inr(1)[OF tank(1)] by simp_all
    from createStockMovement_Inr(1)[OF tank(3)] obtain tk where tk:
      "tanks db1 (smi_tankId (saleMovement ct vt item)) = Some tk"
      "stockMovements db2 = stockMovements db1 @ [m]"
      "tanks db2 = (tanks db1)(smi_tankId (saleMovement ct vt item) \<mapsto>
                        tk\<lparr>t_currentStock := Some (pgRound 2 (sm_newStock m))\<rparr>)"
      by auto
    have m: "sm_tankId m = smi_tankId (saleMovement ct vt item)"
        "Some (sm_tankId m) = it_tankId item"
        "sm_movementType m = ''out''" "Some (sm_quantity m) = map_option (pgRound 3) (it_quantity item)"
        "sm_referenceType m = Some ''sale''" "sm_referenceId m = Some (st_id ct)"
        "sm_previousStock m - sm_quantity m = sm_newStock m"
      using createStockMovement_Inr(2-7)[OF tank(3)] specifiesTank_tankId[OF tank(2), of ct vt]
      by (simp_all add: saleMovement_def)
    have 1: "stockMovements db' = stockMovements db @ (m # ms)"
      using ms(1) tk(2) db1 by simp
    have 2: "map (\<lambda>m. (Some (sm_tankId m), sm_movementType m, Some (sm_quantity m),
                  sm_referenceType m, sm_referenceId m)) (m # ms)
       = map (\<lambda>i. (it_tankId i, ''out'', map_option (pgRound 3) (it_quantity i), Some ''sale'',
                    Some (st_id ct)))
             (filter specifiesTank (item # rest))"
      using ms(2) m tank(2) by simp
    have 3: "\<forall>x \<in> set (m # ms). sm_previousStock x - sm_quantity x = sm_newStock x"
      using ms(3) m(7) by simp
    have 4: "tanks db' t =
            (if filter (\<lambda>x. sm_tankId x = t) (m # ms) = [] then tanks db t
             else map_option
                    (\<lambda>tk. tk\<lparr>t_currentStock :=
                               Some (pgRound 2 (sm_newStock (last (filter (\<lambda>x. sm_tankId x = t) (m # ms)))))\<rparr>)
                    (tanks db t))" for t
      using ms(4)[rule_format, of t] tk(1,3) m(1) db1(2)
      by (auto simp: map_option_case split: option.splits)
    show ?thesis
      apply (rule exI[of _ "m # ms"])
      using 1 2 3 4 by blast
  qed
qed

text \<open>What an answer 201 says about the run of the handler.\<close>

lemma post_sales_201:
  assumes "post_sales stamp transaction items db = ((201, Created ct createdItems), db')"
  obtains vt db1 db2 where
    "insertSalesTransactionSchema_parse (transaction\<lparr>tx_invoiceNumber := Some (''SAL'' @ stamp)\<rparr>) = Inr vt"
    "createSalesTransaction vt db = Inr (ct, db1)"
    "sale_items_loop ct vt items [] db1 = (Inr createdItems, db2)"
    "stockMovements db' = stockMovements db2" "tanks db' = tanks db2"
    "salesTransactions db' = salesTransactions db2"
    "salesTransactionItems db' = salesTransactionItems db2"
  using assms
  by (auto simp: post_sales_def sales_catch_def Let_def updateCustomerOutstanding_def
      split: sum.splits prod.splits if_splits option.splits)

lemma sale_items_loop_append:
  "sale_items_loop ct vt (xs @ ys) created db =
     (case sale_items_loop ct vt xs created db of
        (Inl e, d) \<Rightarrow> (Inl e, d)
      | (Inr c, d) \<Rightarrow> sale_items_loop ct vt ys c d)"
  by (induction xs arbitrary: created db) (auto split: sum.splits prod.splits)

lemma sale_items_loop_items:
  assumes "sale_items_loop ct vt items created db = (Inr created', db')"
  shows "\<exists>new. created' = created @ new
     \<and> salesTransactionItems db' = salesTransactionItems db @ new
     \<and> map (\<lambda>r. (sti_transactionId r, Some (sti_productId r), sti_tankId r,
                  Some (sti_quantity r), Some (sti_unitPrice r), Some (sti_totalPrice r))) new
       = map (\<lambda>i. (st_id ct, it_productId i, it_tankId i, map_option (pgRound 3) (it_quantity i),
                    map_option (pgRound 2) (it_unitPrice i),
                    map_option (pgRound 2) (it_totalPrice i))) items
     \<and> salesTransactions db' = salesTransactions db"
  using assms
proof (induction items arbitrary: created db)
  case Nil
  then show ?case by simp
next
  case (Cons item rest)
  from Cons.prems show ?case
  proof (cases rule: sale_items_loop_Cons_Inr)
    case (notank r db1)
    from Cons.IH[OF notank(3)] obtain new where new:
      "created' = (created @ [r]) @ new"
      "salesTransactionItems db' = salesTransactionItems db1 @ new"
      "map (\<lambda>r. (sti_transactionId r, Some (sti_productId r), sti_tankId r,
                  Some (sti_quantity r), Some (sti_unitPrice r), Some (sti_totalPrice r))) new
       = map (\<lambda>i. (st_id ct, it_productId i, it_tankId i, map_option (pgRound 3) (it_quantity i),
                    map_option (pgRound 2) (it_unitPrice i),
                    map_option (pgRound 2) (it_totalPrice i))) rest"
      "salesTransactions db' = salesTransactions db1"
      by blast
    show ?thesis
      apply (rule exI[of _ "r # new"])
      using new createSalesTransactionItem_Inr[OF notank(1)] by simp
  next
    case (tank r db1 m db2)
    from Cons.IH[OF tank(4)] obtain new where new:
      "created' = (created @ [r]) @ new"
      "salesTransactionItems db' = salesTransactionItems db2 @ new"
      "map (\<lambda>r. (sti_transactionId r, Some (sti_productId r), sti_tankId r,
                  Some (sti_quantity r), Some (sti_unitPrice r), Some (sti_totalPrice r))) new
       = map (\<lambda>i. (st_id ct, it_productId i, it_tankId i, map_option (pgRound 3) (it_quantity i),
                    map_option (pgRound 2) (it_unitPrice i),
                    map_option (pgRound 2) (it_totalPrice i))) rest"
      "salesTransactions db' = salesTransactions db2"
      by blast
    have "salesTransactionItems db2 = salesTransactionItems db1"
         "salesTransactions db2 = salesTransactions db1"
      using createStockMovement_Inr(1)[OF tank(3)] by auto
    then show ?thesis
      apply -
      apply (rule exI[of _ "r # new"])
      using new createSalesTransactionItem_Inr[OF tank(1)] by simp
  qed
qed

section \<open>The example requests, run\<close>

text \<open>The floor of a quotient of numerals, for evaluating the roundings.\<close>

lemma floor_rat_numeral_div:
  "\<lfloor>(numeral a :: rat) / numeral b\<rfloor> = numeral a div numeral b"
  using floor_divide_of_int_eq[of "numeral a" "numeral b", where ?'a = rat] by simp

lemma floor_rat_one_div:
  "\<lfloor>(1 :: rat) / numeral b\<rfloor> = 1 div numeral b"
  using floor_divide_of_int_eq[of 1 "numeral b", where ?'a = rat] by simp

lemma floor_rat_neg_numeral_div:
  "\<lfloor>- ((numeral a :: rat) / numeral b)\<rfloor> = - numeral a div numeral b"
  using floor_divide_of_int_eq[of "- numeral a" "numeral b", where ?'a = rat] by simp


lemmas example_defs = emptyStore_def stationStore_def creditSale_def fuelItem_def
  secondFuelItem_def lubricantItem_def malformedItem_def createdSale_def managerUser_def

lemmas sales_defs = post_sales_def insertSalesTransactionSchema_parse_def paymentMethodEnum_def
  createSalesTransaction_def insertSalesTransactionItemSchema_parse_def
  createSalesTransactionItem_def specifiesTank_def truthy_def saleMovement_def
  createStockMovement_def updateCustomerOutstanding_def parseFloatOr0_def sales_catch_def Let_def
  pgRound_def fitsNumeric_def floor_rat_numeral_div floor_rat_one_div


text \<open>A sale of three items: fuel, a lubricant, and fuel from the same tank again.\<close>

lemma threeItems_run:
  "fst (post_sales ''123456'' creditSale [fuelItem, lubricantItem, secondFuelItem] stationStore) =
     (201, Created createdSale
       [\<lparr>sti_id = 1, sti_transactionId = 0, sti_productId = ''P1'', sti_tankId = Some ''T1'',
         sti_quantity = 10, sti_unitPrice = 10, sti_totalPrice = 100\<rparr>,
        \<lparr>sti_id = 3, sti_transactionId = 0, sti_productId = ''P2'', sti_tankId = None,
         sti_quantity = 2, sti_unitPrice = 15, sti_totalPrice = 30\<rparr>,
        \<lparr>sti_id = 4, sti_transactionId = 0, sti_productId = ''P1'', sti_tankId = Some ''T1'',
         sti_quantity = 20, sti_unitPrice = 10, sti_totalPrice = 200\<rparr>])"
  "stockMovements (snd (post_sales ''123456'' creditSale [fuelItem, lubricantItem, secondFuelItem] stationStore)) =
     [\<lparr>sm_id = 2, sm_tankId = ''T1'', sm_stationId = ''S1'', sm_userId = ''U1'',
       sm_movementType = ''out'', sm_quantity = 10, sm_previousStock = 100,
       sm_newStock = 90, sm_referenceId = Some 0, sm_referenceType = Some ''sale''\<rparr>,
      \<lparr>sm_id = 5, sm_tankId = ''T1'', sm_stationId = ''S1'', sm_userId = ''U1'',
       sm_movementType = ''out'', sm_quantity = 20, sm_previousStock = 90,
       sm_newStock = 70, sm_referenceId = Some 0, sm_referenceType = Some ''sale''\<rparr>]"
  "tanks (snd (post_sales ''123456'' creditSale [fuelItem, lubricantItem, secondFuelItem] stationStore)) =
     [''T1'' \<mapsto> \<lparr>t_name = ''Petrol'', t_currentStock = Some 70\<rparr>]"
  by (simp_all add: example_defs sales_defs)

section \<open>C1: credit sales and the customer's outstanding amount\<close>




section \<open>C2: stock movements of a sale\<close>

text \<open>
  C2, as the code has it. When POST /api/sales is answered 201, the request has
  appended exactly one stock movement for each of its items that specifies a tank
  (tankId present, not empty and not the string "null"), in item order and none for the
  other items; each has movementType "out", the item's tank, the item's quantity as the
  decimal(10, 3) column holds it (rounded to three decimals), referenceType "sale" and
  the created transaction's id as referenceId, and satisfies
  previousStock - quantity = newStock. After the request, a tank that got no movement
  is as before, and the currentStock of a tank that got some is the newStock of the
  last movement made for it as the tank's decimal(10, 2) column holds it (rounded to
  two decimals).
\<close>

theorem post_sales_stock_movements:
  assumes "post_sales stamp transaction items db = ((201, Created ct createdItems), db')"
  shows "\<exists>ms. stockMovements db' = stockMovements db @ ms
     \<and> map (\<lambda>m. (Some (sm_tankId m), sm_movementType m, Some (sm_quantity m),
                  sm_referenceType m, sm_referenceId m)) ms
       = map (\<lambda>i. (it_tankId i, ''out'', map_option (pgRound 3) (it_quantity i), Some ''sale'',
                    Some (st_id ct)))
             (filter specifiesTank items)
     \<and> (\<forall>m \<in> set ms. sm_previousStock m - sm_quantity m = sm_newStock m)
     \<and> (\<forall>t. tanks db' t =
            (if filter (\<lambda>m. sm_tankId m = t) ms = [] then tanks db t
             else map_option
                    (\<lambda>tk. tk\<lparr>t_currentStock :=
                               Some (pgRound 2 (sm_newStock (last (filter (\<lambda>m. sm_tankId m = t) ms))))\<rparr>)
                    (tanks db t)))"
  using assms
proof (cases rule: post_sales_201)
  case (1 vt db1 db2)
  have a: "stockMovements db1 = stockMovements db" "tanks db1 = tanks db"
    using createSalesTransaction_Inr(1)[OF 1(2)] by simp_all
  from sale_items_loop_movements[OF 1(3)] show ?thesis
    unfolding 1(4,5) a .
qed

text \<open>
  Fuel, a lubricant, and fuel again from tank T1 (stock 100): two movements, 100 to 90
  and 90 to 70, none for the lubricant, and the tank ends at 70.
\<close>

theorem post_sales_stock_movements_witness:
  "fst (fst (post_sales ''123456'' creditSale [fuelItem, lubricantItem, secondFuelItem] stationStore)) = 201
   \<and> filter specifiesTank [fuelItem, lubricantItem, secondFuelItem] = [fuelItem, secondFuelItem]
   \<and> map (\<lambda>m. (sm_tankId m, sm_movementType m, sm_quantity m, sm_previousStock m, sm_newStock m,
                sm_referenceType m, sm_referenceId m))
        (stockMovements (snd (post_sales ''123456'' creditSale
                                [fuelItem, lubricantItem, secondFuelItem] stationStore)))
       = [(''T1'', ''out'', 10, 100, 90, Some ''sale'', Some 0),
          (''T1'', ''out'', 20, 90, 70, Some ''sale'', Some 0)]
   \<and> tanks (snd (post_sales ''123456'' creditSale
                   [fuelItem, lubricantItem, secondFuelItem] stationStore)) ''T1''
       = Some \<lparr>t_name = ''Petrol'', t_currentStock = Some 70\<rparr>"
proof -
  have run: "post_sales ''123456'' creditSale [fuelItem, lubricantItem, secondFuelItem] stationStore =
     ((201, Created createdSale
       [\<lparr>sti_id = 1, sti_transactionId = 0, sti_productId = ''P1'', sti_tankId = Some ''T1'',
         sti_quantity = 10, sti_unitPrice = 10, sti_totalPrice = 100\<rparr>,
        \<lparr>sti_id = 3, sti_transactionId = 0, sti_productId = ''P2'', sti_tankId = None,
         sti_quantity = 2, sti_unitPrice = 15, sti_totalPrice = 30\<rparr>,
        \<lparr>sti_id = 4, sti_transactionId = 0, sti_productId = ''P1'', sti_tankId = Some ''T1'',
         sti_quantity = 20, sti_unitPrice = 10, sti_totalPrice = 200\<rparr>]),
      snd (post_sales ''123456'' creditSale [fuelItem, lubricantItem, secondFuelItem] stationStore))"
    by (simp add: prod_eq_iff threeItems_run(1))
  show ?thesis
    using post_sales_stock_movements[OF run]
    by (simp add: threeItems_run)
       (simp add: example_defs specifiesTank_def truthy_def)
qed

text \<open>
  C2 as stated fails three times. With two items on tank T1 the first item's movement
  has newStock 90 while the tank ends the request at 70. An item with a tank that
  follows an item refused by validation gets no movement at all. And a sale of 10.005
  from the stock 100 makes a movement with newStock 89.995, which the tank's column
  holds as 90.00.
\<close>

theorem post_sales_stock_movements_counterexample:
  "fst (fst (post_sales ''123456'' creditSale [fuelItem, secondFuelItem] stationStore)) = 201
   \<and> specifiesTank fuelItem \<and> it_tankId fuelItem = Some ''T1''
   \<and> map (\<lambda>m. (sm_tankId m, sm_quantity m, sm_previousStock m, sm_newStock m))
        (stockMovements (snd (post_sales ''123456'' creditSale [fuelItem, secondFuelItem] stationStore)))
       = [(''T1'', 10, 100, 90), (''T1'', 20, 90, 70)]
   \<and> tanks (snd (post_sales ''123456'' creditSale [fuelItem, secondFuelItem] stationStore)) ''T1''
       = Some \<lparr>t_name = ''Petrol'', t_currentStock = Some 70\<rparr>
   \<and> fst (post_sales ''123456'' creditSale [malformedItem, fuelItem] stationStore)
       = (400, Message ''Validation failed'')
   \<and> stockMovements (snd (post_sales ''123456'' creditSale [malformedItem, fuelItem] stationStore)) = []
   \<and> fst (fst (post_sales ''123456'' creditSale [fractionalFuelItem] stationStore)) = 201
   \<and> it_quantity fractionalFuelItem = Some (2001 / 200)
   \<and> map (\<lambda>m. (sm_tankId m, sm_quantity m, sm_previousStock m, sm_newStock m))
        (stockMovements (snd (post_sales ''123456'' creditSale [fractionalFuelItem] stationStore)))
       = [(''T1'', 2001 / 200, 100, 17999 / 200)]
   \<and> tanks (snd (post_sales ''123456'' creditSale [fractionalFuelItem] stationStore)) ''T1''
       = Some \<lparr>t_name = ''Petrol'', t_currentStock = Some 90\<rparr>"
  by (simp add: example_defs fractionalFuelItem_def sales_defs)

section \<open>C3: POST /api/sales is not atomic\<close>

text \<open>
  C3. Let the header validate and be stored, let the items before the k-th be
  validated and stored (with their stock movements), and let the k-th item fail
  validation. Then the request is answered 400, and the store it leaves is the store
  reached after those earlier items: it holds the header, the earlier items, each
  referring to the header and with its amounts as the columns hold them, and their
  stock movements. Nothing is rolled back.
\<close>

theorem post_sales_not_atomic:
  assumes "insertSalesTransactionSchema_parse
             (transaction\<lparr>tx_invoiceNumber := Some (''SAL'' @ stamp)\<rparr>) = Inr vt"
    and "createSalesTransaction vt db = Inr (ct, db1)"
    and "sale_items_loop ct vt pre [] db1 = (Inr createdPre, db2)"
    and "insertSalesTransactionItemSchema_parse (bad\<lparr>it_transactionId := Some (st_id ct)\<rparr>)
           = Inl ZodError"
  shows "post_sales stamp transaction (pre @ bad # rest) db
           = ((400, Message ''Validation failed''), db2)
     \<and> salesTransactions db2 = salesTransactions db @ [ct]
     \<and> salesTransactionItems db2 = salesTransactionItems db @ createdPre
     \<and> map (\<lambda>r. (sti_transactionId r, Some (sti_productId r), sti_tankId r,
                  Some (sti_quantity r), Some (sti_unitPrice r), Some (sti_totalPrice r)))
           createdPre
       = map (\<lambda>i. (st_id ct, it_productId i, it_tankId i, map_option (pgRound 3) (it_quantity i),
                    map_option (pgRound 2) (it_unitPrice i),
                    map_option (pgRound 2) (it_totalPrice i))) pre
     \<and> (\<exists>ms. stockMovements db2 = stockMovements db @ ms
           \<and> map (\<lambda>m. (Some (sm_tankId m), sm_movementType m, Some (sm_quantity m),
                        sm_referenceType m, sm_referenceId m)) ms
             = map (\<lambda>i. (it_tankId i, ''out'', map_option (pgRound 3) (it_quantity i), Some ''sale'',
                    Some (st_id ct)))
                   (filter specifiesTank pre))"
proof -
  have db1: "salesTransactions db1 = salesTransactions db @ [ct]"
    "salesTransactionItems db1 = salesTransactionItems db"
    "stockMovements db1 = stockMovements db"
    using createSalesTransaction_Inr(1)[OF assms(2)] by simp_all
  have loop: "sale_items_loop ct vt (pre @ bad # rest) [] db1 = (Inl ZodError, db2)"
    using assms(3,4) by (simp add: sale_items_loop_append)
  have resp: "post_sales stamp transaction (pre @ bad # rest) db
           = ((400, Message ''Validation failed''), db2)"
    using assms(1,2) loop by (simp add: post_sales_def sales_catch_def)
  from sale_items_loop_items[OF assms(3)] have items:
    "salesTransactionItems db2 = salesTransactionItems db @ createdPre"
    "map (\<lambda>r. (sti_transactionId r, Some (sti_productId r), sti_tankId r,
                  Some (sti_quantity r), Some (sti_unitPrice r), Some (sti_totalPrice r)))
           createdPre
       = map (\<lambda>i. (st_id ct, it_productId i, it_tankId i, map_option (pgRound 3) (it_quantity i),
                    map_option (pgRound 2) (it_unitPrice i),
                    map_option (pgRound 2) (it_totalPrice i))) pre"
    "salesTransactions db2 = salesTransactions db @ [ct]"
    using db1 by auto
  from sale_items_loop_movements[OF assms(3)] have mv:
    "\<exists>ms. stockMovements db2 = stockMovements db @ ms
           \<and> map (\<lambda>m. (Some (sm_tankId m), sm_movementType m, Some (sm_quantity m),
                        sm_referenceType m, sm_referenceId m)) ms
             = map (\<lambda>i. (it_tankId i, ''out'', map_option (pgRound 3) (it_quantity i), Some ''sale'',
                    Some (st_id ct)))
                   (filter specifiesTank pre)"
    unfolding db1 by blast
  from resp items mv show ?thesis by blast
qed

text \<open>
  Fuel, a lubricant, then an item without product, then fuel: answered 400, with the
  header, the first two items and the first stock movement in the store.
\<close>

theorem post_sales_not_atomic_witness:
  "post_sales ''123456'' creditSale
      ([fuelItem, lubricantItem] @ malformedItem # [secondFuelItem]) stationStore
     = ((400, Message ''Validation failed''), afterTwoItems)
   \<and> salesTransactions afterTwoItems = salesTransactions stationStore @ [createdSale]
   \<and> map sti_productId (salesTransactionItems afterTwoItems) = [''P1'', ''P2'']
   \<and> map sm_quantity (stockMovements afterTwoItems) = [10]"
proof -
  have 1: "insertSalesTransactionSchema_parse (creditSale\<lparr>tx_invoiceNumber := Some (''SAL'' @ ''123456'')\<rparr>)
        = Inr (creditSale\<lparr>tx_invoiceNumber := Some ''SAL123456''\<rparr>)"
    by (simp add: example_defs afterHeader_def afterTwoItems_def sales_defs)
  have 2: "createSalesTransaction (creditSale\<lparr>tx_invoiceNumber := Some ''SAL123456''\<rparr>) stationStore
        = Inr (createdSale, afterHeader)"
    by (simp add: example_defs afterHeader_def afterTwoItems_def sales_defs)
  have 3: "sale_items_loop createdSale (creditSale\<lparr>tx_invoiceNumber := Some ''SAL123456''\<rparr>)
             [fuelItem, lubricantItem] [] afterHeader
        = (Inr [\<lparr>sti_id = 1, sti_transactionId = 0, sti_productId = ''P1'', sti_tankId = Some ''T1'',
                 sti_quantity = 10, sti_unitPrice = 10, sti_totalPrice = 100\<rparr>,
                \<lparr>sti_id = 3, sti_transactionId = 0, sti_productId = ''P2'', sti_tankId = None,
                 sti_quantity = 2, sti_unitPrice = 15, sti_totalPrice = 30\<rparr>], afterTwoItems)"
    by (simp add: example_defs afterHeader_def afterTwoItems_def sales_defs)
  have 4: "insertSalesTransactionItemSchema_parse
             (malformedItem\<lparr>it_transactionId := Some (st_id createdSale)\<rparr>) = Inl ZodError"
    by (simp add: example_defs afterHeader_def afterTwoItems_def sales_defs)
  show ?thesis
    using post_sales_not_atomic[OF 1 2 3 4, of "[secondFuelItem]"]
    by (simp add: example_defs afterHeader_def afterTwoItems_def)
qed

section \<open>C4: a sale without items\<close>




section \<open>Facts about PUT /api/sales/:transactionId\<close>

lemma update_items_loop_frame:
  "update_items_loop tid items updated db = (r, db') \<Longrightarrow>
     customers db' = customers db \<and> stockMovements db' = stockMovements db
     \<and> tanks db' = tanks db \<and> suppliers db' = suppliers db
     \<and> salesTransactions db' = salesTransactions db"
proof (induction items arbitrary: updated db)
  case Nil
  then show ?case by simp
next
  case (Cons item rest)
  then show ?case
    by (auto split: sum.splits prod.splits dest!: createSalesTransactionItem_Inr(1))
qed

lemma update_items_loop_items:
  assumes "update_items_loop tid items updated db = (Inr updated', db')"
  shows "\<exists>new. updated' = updated @ new
     \<and> salesTransactionItems db' = salesTransactionItems db @ new
     \<and> map (\<lambda>r. (sti_transactionId r, Some (sti_productId r), sti_tankId r,
                  Some (sti_quantity r), Some (sti_unitPrice r), Some (sti_totalPrice r))) new
       = map (\<lambda>i. (tid, it_productId i, it_tankId i, map_option (pgRound 3) (it_quantity i),
                    map_option (pgRound 2) (it_unitPrice i),
                    map_option (pgRound 2) (it_totalPrice i))) items"
  using assms
proof (induction items arbitrary: updated db)
  case Nil
  then show ?case by simp
next
  case (Cons item rest)
  from Cons.prems obtain r db1 where
    r: "createSalesTransactionItem (item\<lparr>it_transactionId := Some tid\<rparr>) db = Inr (r, db1)"
    and rest: "update_items_loop tid rest (updated @ [r]) db1 = (Inr updated', db')"
    by (auto split: sum.splits prod.splits)
  from Cons.IH[OF rest] obtain new where new:
    "updated' = (updated @ [r]) @ new"
    "salesTransactionItems db' = salesTransactionItems db1 @ new"
    "map (\<lambda>r. (sti_transactionId r, Some (sti_productId r), sti_tankId r,
                  Some (sti_quantity r), Some (sti_unitPrice r), Some (sti_totalPrice r))) new
       = map (\<lambda>i. (tid, it_productId i, it_tankId i, map_option (pgRound 3) (it_quantity i),
                    map_option (pgRound 2) (it_unitPrice i),
                    map_option (pgRound 2) (it_totalPrice i))) rest"
    by blast
  show ?case
    apply (rule exI[of _ "r # new"])
    using new createSalesTransactionItem_Inr[OF r] by simp
qed

lemma updateSalesTransaction_Inr:
  "updateSalesTransaction tid t db = Inr (u, db1) \<Longrightarrow>
     customers db1 = customers db \<and> stockMovements db1 = stockMovements db
     \<and> tanks db1 = tanks db \<and> suppliers db1 = suppliers db
     \<and> salesTransactionItems db1 = salesTransactionItems db"
  by (auto simp: updateSalesTransaction_def split: option.splits if_splits)

lemma sti_view_tid:
  "map (\<lambda>r. (sti_transactionId r, Some (sti_productId r), sti_tankId r,
              Some (sti_quantity r), Some (sti_unitPrice r), Some (sti_totalPrice r))) new
     = map (\<lambda>i. (tid, it_productId i, it_tankId i, map_option (pgRound 3) (it_quantity i),
                    map_option (pgRound 2) (it_unitPrice i),
                    map_option (pgRound 2) (it_totalPrice i))) items
   \<Longrightarrow> \<forall>r \<in> set new. sti_transactionId r = tid"
proof (induction new arbitrary: items)
  case Nil
  then show ?case by simp
next
  case (Cons a new)
  then show ?case by (cases items) auto
qed

lemmas put_examples = soldStore_def headerEdit_def

lemmas put_defs = put_sales_def getSalesTransaction_def updateSalesTransaction_def
  applySalesTransactionUpdate_def orElse_def deleteSalesTransactionItems_def
  createSalesTransactionItem_def paymentMethodEnum_def Let_def pgRound_def fitsNumeric_def
  floor_rat_numeral_div floor_rat_one_div

text \<open>A manager of station S1 replaces the one item of the credit sale by two.\<close>

lemma put_run:
  "fst (put_sales managerUser 0 headerEdit [secondFuelItem, lubricantItem] soldStore) =
     (200, Created
        (createdSale\<lparr>st_subtotal := 230, st_totalAmount := 230, st_outstandingAmount := 230\<rparr>)
        [\<lparr>sti_id = 3, sti_transactionId = 0, sti_productId = ''P1'', sti_tankId = Some ''T1'',
          sti_quantity = 20, sti_unitPrice = 10, sti_totalPrice = 200\<rparr>,
         \<lparr>sti_id = 4, sti_transactionId = 0, sti_productId = ''P2'', sti_tankId = None,
          sti_quantity = 2, sti_unitPrice = 15, sti_totalPrice = 30\<rparr>])"
  "salesTransactionItems (snd (put_sales managerUser 0 headerEdit [secondFuelItem, lubricantItem] soldStore)) =
        [\<lparr>sti_id = 3, sti_transactionId = 0, sti_productId = ''P1'', sti_tankId = Some ''T1'',
          sti_quantity = 20, sti_unitPrice = 10, sti_totalPrice = 200\<rparr>,
         \<lparr>sti_id = 4, sti_transactionId = 0, sti_productId = ''P2'', sti_tankId = None,
          sti_quantity = 2, sti_unitPrice = 15, sti_totalPrice = 30\<rparr>]"
  by (simp_all add: example_defs put_examples put_defs)

section \<open>C8: the items after an edit\<close>

text \<open>
  C8, as the code has it. When PUT /api/sales/:transactionId is answered 200, the items
  stored for the transaction are exactly the rows created for the submitted items: one
  per submitted item, in order, with the same product and tank and with the quantity,
  the unit price and the total price as the columns hold them (rounded to three, two
  and two decimals), each referring to the transaction id, whatever items were stored
  for it before; the items of other transactions are as before.
\<close>

theorem put_sales_replaces_items:
  assumes "put_sales usr tid transaction items db = ((200, Created ut updatedItems), db')"
  shows "filter (\<lambda>r. sti_transactionId r = tid) (salesTransactionItems db') = updatedItems
     \<and> map (\<lambda>r. (sti_transactionId r, Some (sti_productId r), sti_tankId r,
                  Some (sti_quantity r), Some (sti_unitPrice r), Some (sti_totalPrice r)))
           updatedItems
       = map (\<lambda>i. (tid, it_productId i, it_tankId i, map_option (pgRound 3) (it_quantity i),
                    map_option (pgRound 2) (it_unitPrice i),
                    map_option (pgRound 2) (it_totalPrice i))) items
     \<and> filter (\<lambda>r. sti_transactionId r \<noteq> tid) (salesTransactionItems db')
       = filter (\<lambda>r. sti_transactionId r \<noteq> tid) (salesTransactionItems db)"
proof -
  from assms obtain db1 db2 where
    upd: "updateSalesTransaction tid transaction db = Inr (ut, db1)"
    and loop: "update_items_loop tid items [] (deleteSalesTransactionItems tid db1)
                 = (Inr updatedItems, db2)"
    and db': "db' = db2"
    by (auto simp: put_sales_def split: option.splits sum.splits prod.splits if_splits)
  from update_items_loop_items[OF loop] have items:
    "salesTransactionItems db' =
       filter (\<lambda>i. sti_transactionId i \<noteq> tid) (salesTransactionItems db) @ updatedItems"
    "map (\<lambda>r. (sti_transactionId r, Some (sti_productId r), sti_tankId r,
                  Some (sti_quantity r), Some (sti_unitPrice r), Some (sti_totalPrice r)))
           updatedItems
       = map (\<lambda>i. (tid, it_productId i, it_tankId i, map_option (pgRound 3) (it_quantity i),
                    map_option (pgRound 2) (it_unitPrice i),
                    map_option (pgRound 2) (it_totalPrice i))) items"
    using updateSalesTransaction_Inr[OF upd] db'
    by (auto simp: deleteSalesTransactionItems_def)
  have tid: "\<forall>r \<in> set updatedItems. sti_transactionId r = tid"
    using sti_view_tid[OF items(2)] .
  have f1: "filter (\<lambda>r. sti_transactionId r = tid) updatedItems = updatedItems"
    using tid by (simp add: filter_id_conv)
  have f2: "filter (\<lambda>r. sti_transactionId r \<noteq> tid) updatedItems = []"
    using tid by (simp add: filter_empty_conv)
  show ?thesis
    using items f1 f2 by simp
qed

text \<open>The sale held one item of 10 litres; after the edit it holds the two submitted items.\<close>

theorem put_sales_replaces_items_witness:
  "fst (fst (put_sales managerUser 0 headerEdit [secondFuelItem, lubricantItem] soldStore)) = 200
   \<and> map sti_quantity (filter (\<lambda>r. sti_transactionId r = 0) (salesTransactionItems soldStore)) = [10]
   \<and> map (\<lambda>r. (sti_transactionId r, sti_productId r, sti_tankId r, sti_quantity r,
                sti_unitPrice r, sti_totalPrice r))
        (filter (\<lambda>r. sti_transactionId r = 0)
           (salesTransactionItems
              (snd (put_sales managerUser 0 headerEdit [secondFuelItem, lubricantItem] soldStore))))
       = [(0, ''P1'', Some ''T1'', 20, 10, 200), (0, ''P2'', None, 2, 15, 30)]"
proof -
  have run: "put_sales managerUser 0 headerEdit [secondFuelItem, lubricantItem] soldStore =
     ((200, Created
        (createdSale\<lparr>st_subtotal := 230, st_totalAmount := 230, st_outstandingAmount := 230\<rparr>)
        [\<lparr>sti_id = 3, sti_transactionId = 0, sti_productId = ''P1'', sti_tankId = Some ''T1'',
          sti_quantity = 20, sti_unitPrice = 10, sti_totalPrice = 200\<rparr>,
         \<lparr>sti_id = 4, sti_transactionId = 0, sti_productId = ''P2'', sti_tankId = None,
          sti_quantity = 2, sti_unitPrice = 15, sti_totalPrice = 30\<rparr>]),
      snd (put_sales managerUser 0 headerEdit [secondFuelItem, lubricantItem] soldStore))"
    by (simp add: prod_eq_iff put_run(1))
  show ?thesis
    using put_sales_replaces_items[OF run]
    by (simp add: put_run) (simp add: example_defs put_examples)
qed

text \<open>
  C8 as stated fails twice. The route does not validate the submitted items, so the
  store refuses the second of two, which lacks its product; the request is answered
  500 after the old items were deleted, and one item is stored where two were
  submitted. And an edit that submits quantity 10.0005, unit price 9.995 and total
  price 99.999 is answered 200 and stores 10.001, 10.00 and 100.00.
\<close>

theorem put_sales_replaces_items_counterexample:
  "fst (put_sales managerUser 0 headerEdit [secondFuelItem, malformedItem] soldStore)
     = (500, Message ''Failed to update sale'')
   \<and> map (\<lambda>i. (it_productId i, it_quantity i)) [secondFuelItem, malformedItem]
       = [(Some ''P1'', Some 20), (None, Some 5)]
   \<and> map (\<lambda>r. (sti_productId r, sti_quantity r))
        (filter (\<lambda>r. sti_transactionId r = 0)
           (salesTransactionItems
              (snd (put_sales managerUser 0 headerEdit [secondFuelItem, malformedItem] soldStore))))
       = [(''P1'', 20)]
   \<and> fst (fst (put_sales managerUser 0 headerEdit [overscaleItem] soldStore)) = 200
   \<and> map (\<lambda>i. (it_quantity i, it_unitPrice i, it_totalPrice i)) [overscaleItem]
       = [(Some (20001 / 2000), Some (1999 / 200), Some (99999 / 1000))]
   \<and> map (\<lambda>r. (sti_quantity r, sti_unitPrice r, sti_totalPrice r))
        (filter (\<lambda>r. sti_transactionId r = 0)
           (salesTransactionItems
              (snd (put_sales managerUser 0 headerEdit [overscaleItem] soldStore))))
       = [(10001 / 1000, 10, 100)]"
  by (simp add: example_defs overscaleItem_def put_examples put_defs)

section \<open>C9: an edit moves no stock and no balance\<close>

text \<open>
  C9. PUT /api/sales/:transactionId, whatever the caller, the header and the items
  submitted and whatever its answer, creates no stock movement, changes no customer (so
  no outstandingAmount) and changes no tank.
\<close>

theorem put_sales_frame:
  "stockMovements (snd (put_sales usr tid transaction items db)) = stockMovements db
   \<and> customers (snd (put_sales usr tid transaction items db)) = customers db
   \<and> tanks (snd (put_sales usr tid transaction items db)) = tanks db"
  by (auto simp: put_sales_def deleteSalesTransactionItems_def
      split: option.splits sum.splits prod.splits
      dest!: updateSalesTransaction_Inr update_items_loop_frame)

text \<open>An edit of a credit sale that submits an item with a tank: answered 200, stock and balances as before.\<close>

theorem put_sales_frame_witness:
  "fst (fst (put_sales managerUser 0 headerEdit [secondFuelItem, lubricantItem] soldStore)) = 200
   \<and> specifiesTank secondFuelItem
   \<and> stockMovements (snd (put_sales managerUser 0 headerEdit [secondFuelItem, lubricantItem] soldStore))
       = stockMovements soldStore
   \<and> customers (snd (put_sales managerUser 0 headerEdit [secondFuelItem, lubricantItem] soldStore))
       = customers soldStore
   \<and> tanks (snd (put_sales managerUser 0 headerEdit [secondFuelItem, lubricantItem] soldStore))
       = tanks soldStore"
  using put_sales_frame[of managerUser 0 headerEdit "[secondFuelItem, lubricantItem]" soldStore]
  by (simp add: put_run) (simp add: example_defs put_examples specifiesTank_def truthy_def)

section \<open>Facts about JavaScript numbers\<close>

text \<open>Unfolding one step of the search for the shortest decimal, for evaluating it.\<close>

lemma shortestFrom_numeral:
  "shortestFrom (numeral n) x e10 k =
     (case candidates x (ipow 10 (e10 - (k - 1))) \<lfloor>x / ipow 10 (e10 - (k - 1))\<rfloor> of
        Some c \<Rightarrow> c
      | None \<Rightarrow> shortestFrom (pred_numeral n) x e10 (k + 1))"
  by (simp add: numeral_eq_Suc)

lemmas double_defs = parseFloat_def roundDouble_def mkDouble_def roundAt_def roundEven_def
  tiesToEven_def ilog2_def ilog10_def belowOne_def ipow_def log2floor.simps log10floor.simps
  js_sub_def floor_rat_numeral_div floor_rat_one_div floor_rat_neg_numeral_div

lemmas numeric_defs = numericOfNumber_def shortest_def candidates_def pick_def
  shortestFrom_numeral pgRound_def fitsNumeric_def


lemma js_mul_example:
  "js_mul (Finite 2650) (parseFloat (17 / 100)) = Finite (7925279813009409 / 17592186044416)"
  "shortest (7925279813009409 / 17592186044416) = 22525000000000003 / 50000000000000"
  by (simp_all add: double_defs numeric_defs)


section \<open>Facts about POST /api/purchase-orders\<close>
















section \<open>C5: the amounts of a purchase order\<close>




section \<open>C7: what a purchase order writes\<close>




section \<open>C6: the balance of a journal entry\<close>








section \<open>C10: deleting a customer or a supplier\<close>

lemmas delete_defs = delete_customer_def getCustomer_def deleteCustomer_def
  delete_supplier_def getSupplier_def deleteSupplier_def parseFloatOr0_def

text \<open>
  C10, as the code has it. DELETE /api/customers/:id (and DELETE /api/suppliers/:id
  alike) answers 400 and changes nothing when the entity's outstandingAmount is
  greater than 0, answers 404 and changes nothing when there is no such entity, and
  otherwise, when the amount is 0, negative or unset, deletes the entity and answers
  200.
\<close>

theorem delete_with_outstanding_amount:
  "(\<forall>c. customers db cid = Some c \<and> parseFloatOr0 (c_outstandingAmount c) > 0 \<longrightarrow>
        delete_customer cid db = ((400, ''Cannot delete customer with outstanding amount''), db))
   \<and> (customers db cid = None \<longrightarrow> delete_customer cid db = ((404, ''Customer not found''), db))
   \<and> (\<forall>c. customers db cid = Some c \<and> parseFloatOr0 (c_outstandingAmount c) \<le> 0 \<longrightarrow>
        delete_customer cid db = ((200, ''Customer deleted successfully''),
                                  db\<lparr>customers := (customers db)(cid := None)\<rparr>))
   \<and> (\<forall>s. suppliers db sid = Some s \<and> parseFloatOr0 (s_outstandingAmount s) > 0 \<longrightarrow>
        delete_supplier sid db = ((400, ''Cannot delete supplier with outstanding amount''), db))
   \<and> (suppliers db sid = None \<longrightarrow> delete_supplier sid db = ((404, ''Supplier not found''), db))
   \<and> (\<forall>s. suppliers db sid = Some s \<and> parseFloatOr0 (s_outstandingAmount s) \<le> 0 \<longrightarrow>
        delete_supplier sid db = ((200, ''Supplier deleted successfully''),
                                  db\<lparr>suppliers := (suppliers db)(sid := None)\<rparr>))"
  by (auto simp: delete_customer_def getCustomer_def deleteCustomer_def
        delete_supplier_def getSupplier_def deleteSupplier_def)

text \<open>A customer owing 250 and a supplier owed 1200 stay; unknown ids give 404; a customer without balance goes.\<close>

theorem delete_with_outstanding_amount_witness:
  "delete_customer ''C1'' overpaidStore
     = ((400, ''Cannot delete customer with outstanding amount''), overpaidStore)
   \<and> delete_customer ''C9'' overpaidStore = ((404, ''Customer not found''), overpaidStore)
   \<and> fst (delete_customer ''C3'' overpaidStore) = (200, ''Customer deleted successfully'')
   \<and> customers (snd (delete_customer ''C3'' overpaidStore)) ''C3'' = None
   \<and> delete_supplier ''V1'' overpaidStore
     = ((400, ''Cannot delete supplier with outstanding amount''), overpaidStore)
   \<and> delete_supplier ''V9'' overpaidStore = ((404, ''Supplier not found''), overpaidStore)
   \<and> fst (delete_supplier ''V2'' overpaidStore) = (200, ''Supplier deleted successfully'')
   \<and> suppliers (snd (delete_supplier ''V2'' overpaidStore)) ''V2'' = None"
  using delete_with_outstanding_amount[of overpaidStore "''C1''" "''V1''"]
        delete_with_outstanding_amount[of overpaidStore "''C9''" "''V9''"]
        delete_with_outstanding_amount[of overpaidStore "''C3''" "''V2''"]
  by (simp add: overpaidStore_def emptyStore_def parseFloatOr0_def)

text \<open>
  C10 as stated fails: a customer and a supplier whose outstandingAmount is -5, neither
  0 nor unset, are deleted.
\<close>

theorem delete_with_outstanding_amount_counterexample:
  "customers overpaidStore ''C2'' = Some \<lparr>c_name = ''Taxi Union'', c_outstandingAmount = Some (- 5)\<rparr>
   \<and> fst (delete_customer ''C2'' overpaidStore) = (200, ''Customer deleted successfully'')
   \<and> customers (snd (delete_customer ''C2'' overpaidStore)) ''C2'' = None
   \<and> suppliers overpaidStore ''V2'' = Some \<lparr>s_name = ''Lubricants Ltd'', s_outstandingAmount = Some (- 5)\<rparr>
   \<and> fst (delete_supplier ''V2'' overpaidStore) = (200, ''Supplier deleted successfully'')
   \<and> suppliers (snd (delete_supplier ''V2'' overpaidStore)) ''V2'' = None"
  by (simp add: overpaidStore_def emptyStore_def delete_defs)

end
